theory Spec2Isabelle
  imports Complex_Main "HOL-Library.Multiset" "HOL-Library.Product_Lexorder"
begin

section \<open>Python values used by the search server\<close>

text \<open>
  Strings are Python \<open>str\<close> values whose code points lie below 256, one \<open>char\<close> per code
  point. A floating-point value (a score, a price, a vector component) is the real number
  it denotes; comparisons of such values are exact. What the floating-point operations of
  the endpoint compute is not modelled: they are parameters (the record \<open>numerics\<close> below).
\<close>

text \<open>The exceptions the source can raise, and the two error kinds of the specified index
  search (\<open>InvalidK\<close>, \<open>DimensionMismatch\<close>), which no statement of the source raises.\<close>

datatype error =
    KeyError string
  | TypeError
  | AttributeError
  | AxisError
  | InvalidK
  | DimensionMismatch

text \<open>A value decoded from the JSON body of a request.\<close>

datatype json =
    JNull
  | JBool bool
  | JNum real
  | JStr string
  | JArr "json list"
  | JObj "(string \<times> json) list"

text \<open>\<open>str.isspace\<close> on code points below 256.\<close>

definition is_space :: "char \<Rightarrow> bool" where
  "is_space c =
     (let n = (of_char c :: nat)
      in (9 \<le> n \<and> n \<le> 13) \<or> (28 \<le> n \<and> n \<le> 32) \<or> n = 133 \<or> n = 160)"

text \<open>\<open>str.lower\<close> on code points below 256: A-Z and the Latin-1 capitals move up by 32.\<close>

definition lower_char :: "char \<Rightarrow> char" where
  "lower_char c =
     (let n = (of_char c :: nat)
      in if (65 \<le> n \<and> n \<le> 90) \<or> (192 \<le> n \<and> n \<le> 222 \<and> n \<noteq> 215)
         then char_of (n + 32) else c)"

definition lower :: "string \<Rightarrow> string" where
  "lower s = map lower_char s"

text \<open>\<open>s.split()\<close>: the maximal runs of non-whitespace characters, in order.\<close>

fun split_ws :: "string \<Rightarrow> string \<Rightarrow> string list" where
  "split_ws cur [] = (if cur = [] then [] else [cur])"
| "split_ws cur (c # cs) =
     (if is_space c
      then (if cur = [] then split_ws [] cs else cur # split_ws [] cs)
      else split_ws (cur @ [c]) cs)"

definition str_split :: "string \<Rightarrow> string list" where
  "str_split s = split_ws [] s"

text \<open>\<open>sep.join(parts)\<close>.\<close>

fun join :: "string \<Rightarrow> string list \<Rightarrow> string" where
  "join sep [] = []"
| "join sep [p] = p"
| "join sep (p # q # ps) = p @ sep @ join sep (q # ps)"

text \<open>\<open>w in s\<close> for strings: \<open>w\<close> occurs in \<open>s\<close> as a contiguous substring.\<close>

fun starts_with :: "string \<Rightarrow> string \<Rightarrow> bool" where
  "starts_with s [] = True"
| "starts_with [] (w # ws) = False"
| "starts_with (c # cs) (w # ws) = (c = w \<and> starts_with cs ws)"

fun str_in :: "string \<Rightarrow> string \<Rightarrow> bool" where
  "str_in w [] = (w = [])"
| "str_in w (c # cs) = (starts_with (c # cs) w \<or> str_in w cs)"

text \<open>\<open>d.get(key, default)\<close> and \<open>d[key]\<close> on a dictionary entry that may be missing.\<close>

definition dict_get :: "'a option \<Rightarrow> 'a \<Rightarrow> 'a" where
  "dict_get v d = (case v of None \<Rightarrow> d | Some x \<Rightarrow> x)"

definition lookup :: "string \<Rightarrow> 'a option \<Rightarrow> error + 'a" where
  "lookup key v = (case v of None \<Rightarrow> Inl (KeyError key) | Some x \<Rightarrow> Inr x)"

section \<open>Catalog items and searchable text\<close>

text \<open>
  A product is a dictionary loaded from the catalog file: every key may be missing; a key
  that is present holds a value of the type the server expects.
\<close>

record product =
  p_id :: "int option"
  p_name :: "string option"
  p_description :: "string option"
  p_price :: "real option"
  p_category :: "string option"
  p_subcategory :: "string option"
  p_gender :: "string option"
  p_colors :: "string list option"
  p_sizes :: "string list option"
  p_tags :: "string list option"
  p_occasions :: "string list option"
  p_seasons :: "string list option"
  p_materials :: "string list option"
  p_rating :: "real option"
  p_reviews :: "int option"
  p_stock :: "int option"

definition build_text :: "product \<Rightarrow> string" where
  "build_text p =
     (let parts =
        [ dict_get (p_name p) '''',
          dict_get (p_description p) '''',
          dict_get (p_category p) '''',
          dict_get (p_subcategory p) '''',
          dict_get (p_gender p) '''',
          join '' '' (dict_get (p_tags p) []),
          join '' '' (dict_get (p_occasions p) []),
          join '' '' (dict_get (p_seasons p) []),
          join '' '' (dict_get (p_materials p) []),
          join '' '' (dict_get (p_colors p) []) ]
      in join '' '' parts)"

section \<open>Match reasons\<close>

text \<open>
  \<open>query_words\<close> is a Python set; only membership and \<open>any\<close> over it are used, so the
  list of words stands for it. \<open>list(set(reasons))\<close> lists the distinct reasons in the
  iteration order of a Python set, which depends on string hashes: that order is the
  parameter \<open>set_order\<close>, from the appended reasons to the list Python produces.
\<close>

text \<open>The test of the tag and occasion loops (lines 83 and 88).\<close>

definition word_hit :: "string list \<Rightarrow> string \<Rightarrow> bool" where
  "word_hit query_words s =
     (lower s \<in> set query_words \<or> list_ex (\<lambda>w. str_in w (lower s)) query_words)"

text \<open>
  The list \<open>reasons\<close> as it stands before the last line of \<open>compute_match_reasons\<close>
  (lines 78-100). \<open>product["category"]\<close> is only reached when the category is a query
  word, but it is a dictionary access and is modelled as one.
\<close>

definition reasons_appended :: "product \<Rightarrow> string \<Rightarrow> error + string list" where
  "reasons_appended product query_lower =
     (let query_words = str_split query_lower;
          r_tags = filter (word_hit query_words) (dict_get (p_tags product) []);
          r_occ = filter (word_hit query_words) (dict_get (p_occasions product) []);
          r_seasons = filter (\<lambda>season. lower season \<in> set query_words)
                        (dict_get (p_seasons product) [])
      in case (if lower (dict_get (p_category product) '''') \<in> set query_words
               then map_sum id (\<lambda>c. [c]) (lookup ''category'' (p_category product))
               else Inr []) of
           Inl e \<Rightarrow> Inl e
         | Inr r_cat \<Rightarrow>
             (case (if lower (dict_get (p_subcategory product) '''') \<in> set query_words
                    then map_sum id (\<lambda>c. [c]) (lookup ''subcategory'' (p_subcategory product))
                    else Inr []) of
                Inl e \<Rightarrow> Inl e
              | Inr r_sub \<Rightarrow> Inr (r_tags @ r_occ @ r_seasons @ r_cat @ r_sub)))"

text \<open>Line 102: \<open>return list(set(reasons))[:5]\<close>.\<close>

definition compute_match_reasons ::
  "(string list \<Rightarrow> string list) \<Rightarrow> product \<Rightarrow> string \<Rightarrow> error + string list" where
  "compute_match_reasons set_order product query_lower =
     (case reasons_appended product query_lower of
        Inl e \<Rightarrow> Inl e
      | Inr reasons \<Rightarrow> Inr (take 5 (set_order reasons)))"

section \<open>Personalization boost\<close>

text \<open>
  \<open>for c in v\<close> on a decoded JSON value: a list yields its elements, a string its
  characters, a dictionary its keys in insertion order; \<open>None\<close>, a boolean or a number is
  not iterable and raises \<open>TypeError\<close>.
\<close>

fun py_iter :: "json \<Rightarrow> error + json list" where
  "py_iter (JArr xs) = Inr xs"
| "py_iter (JStr s) = Inr (map (\<lambda>c. JStr [c]) s)"
| "py_iter (JObj kvs) = Inr (map JStr (rev (remdups (rev (map fst kvs)))))"
| "py_iter JNull = Inl TypeError"
| "py_iter (JBool b) = Inl TypeError"
| "py_iter (JNum x) = Inl TypeError"

text \<open>\<open>c.lower()\<close>: only a string has the method; anything else raises \<open>AttributeError\<close>.\<close>

fun py_lower :: "json \<Rightarrow> error + string" where
  "py_lower (JStr s) = Inr (lower s)"
| "py_lower v = Inl AttributeError"

text \<open>The comprehension \<open>[c.lower() for c in cs]\<close>: the first failing element raises.\<close>

fun lower_all :: "json list \<Rightarrow> error + string list" where
  "lower_all [] = Inr []"
| "lower_all (c # cs) =
     (case py_lower c of
        Inl e \<Rightarrow> Inl e
      | Inr s \<Rightarrow> (case lower_all cs of Inl e \<Rightarrow> Inl e | Inr ss \<Rightarrow> Inr (s # ss)))"

text \<open>Line 209: \<open>fav_colors = [c.lower() for c in user_prefs.get("favorite_colors", [])]\<close>.\<close>

definition fav_colors_of :: "(string \<rightharpoonup> json) \<Rightarrow> error + string list" where
  "fav_colors_of user_prefs =
     (case py_iter (dict_get (user_prefs ''favorite_colors'') (JArr [])) of
        Inl e \<Rightarrow> Inl e
      | Inr cs \<Rightarrow> lower_all cs)"

text \<open>Line 210: \<open>budget = user_prefs.get("budget", "")\<close>.\<close>

definition budget_of :: "(string \<rightharpoonup> json) \<Rightarrow> json" where
  "budget_of user_prefs = dict_get (user_prefs ''budget'') (JStr [])"

text \<open>Lines 221-224: what the colour rule adds to the score.\<close>

definition color_boost :: "string list \<Rightarrow> product \<Rightarrow> real" where
  "color_boost fav_colors product =
     (if fav_colors \<noteq> []
      then (let product_colors = map lower (dict_get (p_colors product) [])
            in if list_ex (\<lambda>fc. list_ex (\<lambda>pc. str_in fc pc) product_colors) fav_colors
               then 5 / 100 else 0)
      else 0)"

text \<open>Lines 227-233: what the budget rule adds to the score.\<close>

definition budget_boost :: "json \<Rightarrow> product \<Rightarrow> real" where
  "budget_boost budget product =
     (let price = dict_get (p_price product) 0
      in if budget = JStr ''low'' \<and> price < 80 then 5 / 100
         else if budget = JStr ''medium'' \<and> 50 \<le> price \<and> price \<le> 200 then 3 / 100
         else if budget = JStr ''high'' \<and> price > 150 then 2 / 100
         else 0)"

section \<open>Result assembly and the search endpoint\<close>

text \<open>
  The floating-point operations the endpoint and the startup perform: \<open>f_add\<close> is the
  binary64 addition of \<open>score += c\<close>, \<open>f_round4\<close> is Python's \<open>round(score, 4)\<close>, and
  \<open>f_normalize\<close> is numpy's float32 normalisation of one row (lines 129-131 and 199-201:
  the norm, a zero norm replaced by 1, the division). Their rounding, underflow and
  overflow are not modelled; they are arbitrary functions, and every statement about the
  endpoint holds whatever they compute.
\<close>

record numerics =
  f_add :: "real \<Rightarrow> real \<Rightarrow> real"
  f_round4 :: "real \<Rightarrow> real"
  f_normalize :: "real list \<Rightarrow> real list"

text \<open>\<open>score += c\<close> is executed only when a rule fires, and then \<open>c\<close> is not 0.\<close>

definition add_boost :: "numerics \<Rightarrow> real \<Rightarrow> real \<Rightarrow> real" where
  "add_boost num score c = (if c = 0 then score else f_add num score c)"

record ProductResult =
  r_id :: int
  r_name :: string
  r_description :: string
  r_price :: real
  r_category :: string
  r_subcategory :: "string option"
  r_gender :: "string option"
  r_colors :: "string list"
  r_sizes :: "string list"
  r_tags :: "string list"
  r_occasions :: "string list"
  r_seasons :: "string list"
  r_rating :: real
  r_reviews :: int
  r_stock :: int
  similarity_score :: real
  match_reasons :: "string list"

record SearchRequest =
  query :: string
  user_preferences :: "string \<rightharpoonup> json"
  top_k :: int

record SearchResponse =
  sr_products :: "ProductResult list"
  sr_query :: string
  search_time_ms :: int
  total_results :: nat

text \<open>What the endpoint returns: the 503 reply or a search response.\<close>

datatype reply = JSONResponse nat string | Search SearchResponse

text \<open>The body of the loop for one retrieved product (lines 216-256).\<close>

definition build_result ::
  "numerics \<Rightarrow> (string list \<Rightarrow> string list) \<Rightarrow> string list \<Rightarrow> json \<Rightarrow> string
     \<Rightarrow> product \<Rightarrow> real \<Rightarrow> error + ProductResult" where
  "build_result num set_order fav_colors budget q product score0 =
     (let score = add_boost num (add_boost num score0 (color_boost fav_colors product))
                    (budget_boost budget product)
      in case compute_match_reasons set_order product (lower q) of
           Inl e \<Rightarrow> Inl e
         | Inr reasons \<Rightarrow>
        (case lookup ''id'' (p_id product) of
           Inl e \<Rightarrow> Inl e
         | Inr i \<Rightarrow>
        (case lookup ''name'' (p_name product) of
           Inl e \<Rightarrow> Inl e
         | Inr n \<Rightarrow>
        (case lookup ''description'' (p_description product) of
           Inl e \<Rightarrow> Inl e
         | Inr d \<Rightarrow>
        (case lookup ''price'' (p_price product) of
           Inl e \<Rightarrow> Inl e
         | Inr pr \<Rightarrow>
        (case lookup ''category'' (p_category product) of
           Inl e \<Rightarrow> Inl e
         | Inr c \<Rightarrow>
             Inr \<lparr> r_id = i, r_name = n, r_description = d, r_price = pr, r_category = c,
                   r_subcategory = p_subcategory product,
                   r_gender = p_gender product,
                   r_colors = dict_get (p_colors product) [],
                   r_sizes = dict_get (p_sizes product) [],
                   r_tags = dict_get (p_tags product) [],
                   r_occasions = dict_get (p_occasions product) [],
                   r_seasons = dict_get (p_seasons product) [],
                   r_rating = dict_get (p_rating product) 0,
                   r_reviews = dict_get (p_reviews product) 0,
                   r_stock = dict_get (p_stock product) 0,
                   similarity_score = f_round4 num score,
                   match_reasons = reasons \<rparr>))))))"

text \<open>
  The loop of lines 212-256 over the retrieved row. \<open>index.search\<close> returns two arrays of
  the same shape; row 0 of both is one list of (position, score) pairs. A position outside
  the catalog is skipped; the first exception ends the request.
\<close>

fun build_results ::
  "numerics \<Rightarrow> (string list \<Rightarrow> string list) \<Rightarrow> string list \<Rightarrow> json \<Rightarrow> string
     \<Rightarrow> product list \<Rightarrow> (int \<times> real) list \<Rightarrow> error + ProductResult list" where
  "build_results num set_order fav_colors budget q products [] = Inr []"
| "build_results num set_order fav_colors budget q products ((idx, s) # hits) =
     (if idx < 0 \<or> idx \<ge> int (length products)
      then build_results num set_order fav_colors budget q products hits
      else (case build_result num set_order fav_colors budget q (products ! nat idx) s of
              Inl e \<Rightarrow> Inl e
            | Inr r \<Rightarrow>
                (case build_results num set_order fav_colors budget q products hits of
                   Inl e \<Rightarrow> Inl e
                 | Inr rs \<Rightarrow> Inr (r # rs))))"

text \<open>
  The module's global variables. The encoder and the FAISS index are external. The encoder
  yields one vector per text, so \<open>model.embed(texts)\<close> is \<open>map embed_text texts\<close> for a
  function \<open>embed_text\<close>. The index holds the vectors added to it, and \<open>index.search\<close> on
  the one-row query is the parameter \<open>faiss_search\<close>: from the stored vectors, the query
  vector and \<open>k\<close> to row 0 of the result, a list of (position, score) pairs.
\<close>

record state =
  products :: "product list"
  product_texts :: "string list"
  index :: "real list list option"
  model :: "(string \<Rightarrow> real list) option"

definition search_products ::
  "numerics \<Rightarrow> (real list list \<Rightarrow> real list \<Rightarrow> int \<Rightarrow> (int \<times> real) list)
     \<Rightarrow> (string list \<Rightarrow> string list) \<Rightarrow> int \<Rightarrow> state \<Rightarrow> SearchRequest
     \<Rightarrow> (error + reply) \<times> state" where
  "search_products num faiss_search set_order elapsed_ms st search_request =
     (case index st of
        None \<Rightarrow> (Inr (JSONResponse 503 ''Index not ready''), st)
      | Some ix \<Rightarrow>
     (case model st of
        None \<Rightarrow> (Inr (JSONResponse 503 ''Index not ready''), st)
      | Some embed_text \<Rightarrow>
          (let query_embedding = f_normalize num (embed_text (query search_request));
               row = faiss_search ix query_embedding (top_k search_request);
               user_prefs = user_preferences search_request
           in case fav_colors_of user_prefs of
                Inl e \<Rightarrow> (Inl e, st)
              | Inr fav_colors \<Rightarrow>
             (case build_results num set_order fav_colors (budget_of user_prefs)
                     (query search_request) (products st) row of
                Inl e \<Rightarrow> (Inl e, st)
              | Inr results \<Rightarrow>
                  (Inr (Search \<lparr> sr_products = sort_key (\<lambda>r. - similarity_score r) results,
                                 sr_query = query search_request,
                                 search_time_ms = elapsed_ms,
                                 total_results = length results \<rparr>), st)))))"

text \<open>
  Startup (lines 107-138). \<open>np.array\<close> of an empty list of embeddings is one-dimensional,
  so \<open>np.linalg.norm(..., axis=1)\<close> raises numpy's \<open>AxisError\<close> there; the globals assigned
  before that line keep their new values and \<open>index\<close> is not assigned.
\<close>

definition startup_load_products ::
  "numerics \<Rightarrow> (string \<Rightarrow> real list) \<Rightarrow> product list \<Rightarrow> state
     \<Rightarrow> error option \<times> state" where
  "startup_load_products num embed_text loaded st =
     (let st1 = st\<lparr>products := loaded\<rparr>;
          st2 = st1\<lparr>product_texts := map build_text (products st1)\<rparr>;
          st3 = st2\<lparr>model := Some embed_text\<rparr>;
          raw_embeddings = map embed_text (product_texts st3)
      in if raw_embeddings = [] then (Some AxisError, st3)
         else (None, st3\<lparr>index := Some (map (f_normalize num) raw_embeddings)\<rparr>))"

text \<open>The module's state before startup (lines 53-56).\<close>

definition initial_state :: state where
  "initial_state = \<lparr> products = [], product_texts = [], index = None, model = None \<rparr>"

section \<open>The similarity index of the specification\<close>

text \<open>
  Modelled from the spec: the Euclidean norm of \<open>normalize\<close> (section 4.1), the first step
  of the specified search (section 4.2), whose code is in FAISS and not under src/. Over
  exact reals, as the spec words it; the normalisation the source performs itself, in
  float32, is the parameter \<open>f_normalize\<close> above.
\<close>

definition linalg_norm :: "real list \<Rightarrow> real" where
  "linalg_norm v = sqrt (sum_list (map (\<lambda>x. x * x) v))"

text \<open>
  Modelled from the spec: \<open>normalize(v)\<close> of section 4.1 as the specified search (not under
  src/) applies it to the query: each component divided by the norm, the input unchanged
  when the norm is exactly zero.
\<close>

definition normalize_row :: "real list \<Rightarrow> real list" where
  "normalize_row v =
     (let n = linalg_norm v; n1 = (if n = 0 then 1 else n) in map (\<lambda>x. x / n1) v)"

text \<open>
  Modelled from the spec: the inner product \<open>dot\<close> of section 4.1, which the source leaves
  to FAISS (not under src/). Vectors of unequal dimension fail with \<open>DimensionMismatch\<close>.
\<close>

definition dot :: "real list \<Rightarrow> real list \<Rightarrow> error + real" where
  "dot a b =
     (if length a = length b then Inr (sum_list (map2 (*) a b)) else Inl DimensionMismatch)"

text \<open>
  Modelled from the spec: the exact linear scan of section 4.2, the inner product of the
  query with every stored vector, in catalog order (in the source, inside FAISS).
\<close>

fun dots :: "real list list \<Rightarrow> real list \<Rightarrow> error + real list" where
  "dots [] qv = Inr []"
| "dots (v # vs) qv =
     (case dot v qv of
        Inl e \<Rightarrow> Inl e
      | Inr s \<Rightarrow> (case dots vs qv of Inl e \<Rightarrow> Inl e | Inr ss \<Rightarrow> Inr (s # ss)))"

text \<open>
  Modelled from the spec: the Similarity Index search of section 4.2. The source delegates
  it to \<open>faiss.IndexFlatIP.search\<close>, whose code is not under src/. As specified: a
  non-positive \<open>k\<close> fails with \<open>InvalidK\<close>; the query is normalised; the scan gives one
  score per catalog position; the \<open>k\<close> highest scores are returned, highest first, ties
  by ascending catalog position.
\<close>

definition index_search :: "real list list \<Rightarrow> real list \<Rightarrow> int \<Rightarrow> error + (nat \<times> real) list" where
  "index_search vecs query_vector k =
     (if k \<le> 0 then Inl InvalidK
      else (case dots vecs (normalize_row query_vector) of
              Inl e \<Rightarrow> Inl e
            | Inr scores \<Rightarrow>
                Inr (take (nat k)
                      (sort_key (\<lambda>(i, s). (- s, i)) (zip [0..<length scores] scores)))))"


section \<open>Example data\<close>

text \<open>A five-item catalog, an encoder and a retrieval stub used to run the model on
  concrete requests.\<close>

definition mk_product :: "int \<Rightarrow> string \<Rightarrow> real \<Rightarrow> string list \<Rightarrow> string list \<Rightarrow> product" where
  "mk_product i n pr cols tgs =
     \<lparr> p_id = Some i, p_name = Some n, p_description = Some n, p_price = Some pr,
       p_category = Some ''Clothing'', p_subcategory = None, p_gender = None,
       p_colors = Some cols, p_sizes = None, p_tags = Some tgs,
       p_occasions = Some [''Wedding''], p_seasons = Some [''Summer''],
       p_materials = None, p_rating = None, p_reviews = None, p_stock = None \<rparr>"

definition ex_catalog :: "product list" where
  "ex_catalog =
     [ mk_product 1 ''Red Summer Dress'' 30 [''Dark Red''] [''dress'', ''summer''],
       mk_product 2 ''Black Leather Boots'' 120 [''Black''] [''boots'', ''leather''],
       mk_product 3 ''Blue Wool Coat'' 250 [''Blue''] [''coat'', ''winter''],
       mk_product 4 ''White Sneakers'' 60 [''White''] [''casual'', ''shoes''],
       mk_product 5 ''Red Hat'' 15 [''Red''] [''hat''] ]"

text \<open>
  An instance of the numeric parameters for the examples: exact addition, rounding of the
  exact real to four decimals (ties to even), and no change to the vectors, which in the
  examples are unit vectors.
\<close>

definition round_half_even :: "real \<Rightarrow> int" where
  "round_half_even x =
     (let f = \<lfloor>x\<rfloor>; d = x - of_int f
      in if d < 1 / 2 then f else if 1 / 2 < d then f + 1 else if even f then f else f + 1)"

definition ex_num :: numerics where
  "ex_num = \<lparr> f_add = (+),
              f_round4 = (\<lambda>x. of_int (round_half_even (x * 10000)) / 10000),
              f_normalize = (\<lambda>v. v) \<rparr>"

definition ex_embed :: "string \<Rightarrow> real list" where
  "ex_embed t = [1, 0]"

text \<open>A retrieval result for the five-item catalog: the best \<open>k\<close> positions, and label -1
  in the places for which the catalog has no item left.\<close>

definition ex_faiss :: "real list list \<Rightarrow> real list \<Rightarrow> int \<Rightarrow> (int \<times> real) list" where
  "ex_faiss ix qv k =
     take (nat k) [(2, 9 / 10), (0, 88 / 100), (4, 1 / 2), (1, 3 / 10), (3, 1 / 10)]
       @ replicate (nat k - 5) (- 1, - 1)"

definition ex_state :: state where
  "ex_state =
     \<lparr> products = ex_catalog,
       product_texts = map build_text ex_catalog,
       index = Some (map (f_normalize ex_num) (map ex_embed (map build_text ex_catalog))),
       model = Some ex_embed \<rparr>"

definition ex_prefs :: "string \<rightharpoonup> json" where
  "ex_prefs = [''favorite_colors'' \<mapsto> JArr [JStr ''Red''], ''budget'' \<mapsto> JStr ''low'']"

definition ex_request :: "int \<Rightarrow> SearchRequest" where
  "ex_request k = \<lparr> query = ''Red dress'', user_preferences = ex_prefs, top_k = k \<rparr>"

text \<open>The response expected for \<open>ex_request 2\<close>: the dress overtakes the coat after the boost.\<close>

definition ex_response :: SearchResponse where
  "ex_response =
     \<lparr> sr_products =
         [ \<lparr> r_id = 1, r_name = ''Red Summer Dress'', r_description = ''Red Summer Dress'',
             r_price = 30, r_category = ''Clothing'', r_subcategory = None, r_gender = None,
             r_colors = [''Dark Red''], r_sizes = [], r_tags = [''dress'', ''summer''],
             r_occasions = [''Wedding''], r_seasons = [''Summer''], r_rating = 0,
             r_reviews = 0, r_stock = 0, similarity_score = 98 / 100,
             match_reasons = [''dress''] \<rparr>,
           \<lparr> r_id = 3, r_name = ''Blue Wool Coat'', r_description = ''Blue Wool Coat'',
             r_price = 250, r_category = ''Clothing'', r_subcategory = None, r_gender = None,
             r_colors = [''Blue''], r_sizes = [], r_tags = [''coat'', ''winter''],
             r_occasions = [''Wedding''], r_seasons = [''Summer''], r_rating = 0,
             r_reviews = 0, r_stock = 0, similarity_score = 9 / 10,
             match_reasons = [] \<rparr> ],
       sr_query = ''Red dress'', search_time_ms = 3, total_results = 2 \<rparr>"

text \<open>Preference objects whose \<open>favorite_colors\<close> is not a list of strings, and one whose
  \<open>budget\<close> is a number.\<close>

definition ex_prefs_number :: "string \<rightharpoonup> json" where
  "ex_prefs_number = [''favorite_colors'' \<mapsto> JNum 5]"

definition ex_prefs_mixed :: "string \<rightharpoonup> json" where
  "ex_prefs_mixed = [''favorite_colors'' \<mapsto> JArr [JStr ''red'', JNull]]"

definition ex_prefs_string :: "string \<rightharpoonup> json" where
  "ex_prefs_string = [''favorite_colors'' \<mapsto> JStr ''e'']"

definition ex_prefs_budget7 :: "string \<rightharpoonup> json" where
  "ex_prefs_budget7 = [''budget'' \<mapsto> JNum 7]"

definition ex_request_number :: SearchRequest where
  "ex_request_number = \<lparr> query = ''Red dress'', user_preferences = ex_prefs_number, top_k = 2 \<rparr>"

definition ex_request_budget7 :: SearchRequest where
  "ex_request_budget7 =
     \<lparr> query = ''Red dress'', user_preferences = ex_prefs_budget7, top_k = 2 \<rparr>"

text \<open>Three stored vectors, two of them equal, for the specified index search.\<close>

definition ex_vectors :: "real list list" where
  "ex_vectors = [[1, 0], [0, 1], [1, 0]]"

section \<open>The search endpoint leaves the globals alone\<close>

text \<open>
  Claim C9. Whatever the request, the collaborators and the outcome (a 503 reply, a search
  response or an exception), the state after \<open>search_products\<close> is the state before it:
  the catalog items, the searchable texts, the index and the encoder are unchanged. The
  result list is local to the request and is part of the reply, not of the state.
\<close>

theorem search_products_frame:
  "snd (search_products num faiss_search set_order elapsed_ms st search_request) = st"
  by (simp add: search_products_def Let_def split: option.splits sum.splits list.splits)

section \<open>Substrings and the boost rules\<close>

lemma starts_with_iff: "starts_with s w \<longleftrightarrow> (\<exists>ss. s = w @ ss)"
  by (induction s w rule: starts_with.induct) auto

lemma str_in_iff: "str_in w s \<longleftrightarrow> (\<exists>ps ss. s = ps @ w @ ss)"
proof (induction s)
  case Nil
  then show ?case by auto
next
  case (Cons c cs)
  show ?case
  proof
    assume "str_in w (c # cs)"
    then consider "starts_with (c # cs) w" | "str_in w cs" by auto
    then show "\<exists>ps ss. c # cs = ps @ w @ ss"
    proof cases
      case 1
      then obtain ss where "c # cs = w @ ss" by (auto simp: starts_with_iff)
      then have "c # cs = [] @ w @ ss" by simp
      then show ?thesis by blast
    next
      case 2
      then obtain ps ss where "cs = ps @ w @ ss" using Cons.IH by auto
      then have "c # cs = (c # ps) @ w @ ss" by simp
      then show ?thesis by blast
    qed
  next
    assume "\<exists>ps ss. c # cs = ps @ w @ ss"
    then obtain ps ss where e: "c # cs = ps @ w @ ss" by blast
    show "str_in w (c # cs)"
    proof (cases ps)
      case Nil
      then have "starts_with (c # cs) w" using e by (auto simp: starts_with_iff)
      then show ?thesis by simp
    next
      case (Cons p ps')
      then have "cs = ps' @ w @ ss" using e by simp
      then have "str_in w cs" using Cons.IH by blast
      then show ?thesis by simp
    qed
  qed
qed

lemma lower_all_strs: "lower_all (map JStr cs) = Inr (map lower cs)"
  by (induction cs) simp_all

lemma fav_colors_of_strs:
  "dict_get (user_prefs ''favorite_colors'') (JArr []) = JArr (map JStr cs)
     \<Longrightarrow> fav_colors_of user_prefs = Inr (map lower cs)"
  by (simp add: fav_colors_of_def lower_all_strs)

lemma color_boost_eq:
  "color_boost fav product =
     (if \<exists>fc\<in>set fav. \<exists>pc\<in>set (dict_get (p_colors product) []). \<exists>ps ss. lower pc = ps @ fc @ ss
      then 5 / 100 else 0)"
  by (auto simp: color_boost_def Let_def list_ex_iff str_in_iff)

lemma budget_boost_cases:
  "budget_boost b product \<in> {0, 2 / 100, 3 / 100, 5 / 100}"
  by (simp add: budget_boost_def Let_def)

lemma budget_boost_unknown:
  "b \<notin> {JStr ''low'', JStr ''medium'', JStr ''high''} \<Longrightarrow> budget_boost b product = 0"
  by (simp add: budget_boost_def Let_def)

lemma budget_of_unknown:
  assumes "prefs ''budget'' \<notin> {Some (JStr ''low''), Some (JStr ''medium''), Some (JStr ''high'')}"
  shows "budget_of prefs \<notin> {JStr ''low'', JStr ''medium'', JStr ''high''}"
  using assms by (cases "prefs ''budget''") (auto simp: budget_of_def dict_get_def)

lemma ex_fav: "fav_colors_of ex_prefs = Inr [''red'']"
  by code_simp

lemma ex_budget: "budget_of ex_prefs = JStr ''low''"
  by code_simp

text \<open>
  Claim C3. For preferences whose \<open>favorite_colors\<close> is absent or a list of strings, and any
  \<open>budget\<close> value, the favourite colours are read without error and the total added to an
  item's score is one of 0, 0.02, 0.03, 0.05, 0.07, 0.08, 0.10. The colour rule adds 0.05
  once, exactly when the lower-cased form of some preferred colour is a substring of the
  lower-cased form of some item colour; the budget rule adds 0.05 for \<open>low\<close> and price < 80,
  0.03 for \<open>medium\<close> and 50 <= price <= 200, 0.02 for \<open>high\<close> and price > 150, and since
  \<open>budget\<close> is one value at most one of the three applies.
\<close>

theorem boost_values:
  assumes "dict_get (user_prefs ''favorite_colors'') (JArr []) = JArr (map JStr cs)"
  shows "fav_colors_of user_prefs = Inr (map lower cs)
    \<and> color_boost (map lower cs) product + budget_boost (budget_of user_prefs) product
        \<in> {0, 2 / 100, 3 / 100, 5 / 100, 7 / 100, 8 / 100, 10 / 100}
    \<and> color_boost (map lower cs) product =
        (if \<exists>c\<in>set cs. \<exists>pc\<in>set (dict_get (p_colors product) []).
               \<exists>ps ss. lower pc = ps @ lower c @ ss
         then 5 / 100 else 0)
    \<and> budget_boost (budget_of user_prefs) product =
        (if budget_of user_prefs = JStr ''low'' then
           (if dict_get (p_price product) 0 < 80 then 5 / 100 else 0)
         else if budget_of user_prefs = JStr ''medium'' then
           (if 50 \<le> dict_get (p_price product) 0 \<and> dict_get (p_price product) 0 \<le> 200
            then 3 / 100 else 0)
         else if budget_of user_prefs = JStr ''high'' then
           (if dict_get (p_price product) 0 > 150 then 2 / 100 else 0)
         else 0)"
proof (intro conjI)
  show "fav_colors_of user_prefs = Inr (map lower cs)"
    using assms by (rule fav_colors_of_strs)
  have c: "color_boost (map lower cs) product \<in> {0, 5 / 100}"
    by (simp add: color_boost_eq)
  have b: "budget_boost (budget_of user_prefs) product \<in> {0, 2 / 100, 3 / 100, 5 / 100}"
    by (rule budget_boost_cases)
  show "color_boost (map lower cs) product + budget_boost (budget_of user_prefs) product
        \<in> {0, 2 / 100, 3 / 100, 5 / 100, 7 / 100, 8 / 100, 10 / 100}"
    using c b by auto
  show "color_boost (map lower cs) product =
        (if \<exists>c\<in>set cs. \<exists>pc\<in>set (dict_get (p_colors product) []).
               \<exists>ps ss. lower pc = ps @ lower c @ ss
         then 5 / 100 else 0)"
    by (simp add: color_boost_eq)
  show "budget_boost (budget_of user_prefs) product =
        (if budget_of user_prefs = JStr ''low'' then
           (if dict_get (p_price product) 0 < 80 then 5 / 100 else 0)
         else if budget_of user_prefs = JStr ''medium'' then
           (if 50 \<le> dict_get (p_price product) 0 \<and> dict_get (p_price product) 0 \<le> 200
            then 3 / 100 else 0)
         else if budget_of user_prefs = JStr ''high'' then
           (if dict_get (p_price product) 0 > 150 then 2 / 100 else 0)
         else 0)"
    by (simp add: budget_boost_def Let_def)
qed

theorem boost_values_witness:
  "dict_get (ex_prefs ''favorite_colors'') (JArr []) = JArr (map JStr [''Red''])
   \<and> fav_colors_of ex_prefs = Inr [''red'']
   \<and> color_boost [''red''] (ex_catalog ! 0) + budget_boost (budget_of ex_prefs) (ex_catalog ! 0)
       = 10 / 100
   \<and> color_boost [''red''] (ex_catalog ! 2) + budget_boost (budget_of ex_prefs) (ex_catalog ! 2)
       = 0"
proof -
  have h: "dict_get (ex_prefs ''favorite_colors'') (JArr []) = JArr (map JStr [''Red''])"
    by (simp add: dict_get_def ex_prefs_def)
  have l: "map lower [''Red''] = [''red'']" by code_simp
  have v: "color_boost [''red''] (ex_catalog ! 0)
             + budget_boost (budget_of ex_prefs) (ex_catalog ! 0) = 10 / 100"
    by code_simp
  have w: "color_boost [''red''] (ex_catalog ! 2)
             + budget_boost (budget_of ex_prefs) (ex_catalog ! 2) = 0"
    by code_simp
  from boost_values [where user_prefs = ex_prefs and cs = "[''Red'']"
                       and product = "ex_catalog ! 0", OF h]
    h l v w show ?thesis by simp
qed

text \<open>
  Claim C2, as stated, fails: a \<open>favorite_colors\<close> value that cannot be iterated (here the
  number 5) raises \<open>TypeError\<close> at line 209 and ends the request with that exception; a list
  with an element that is not a string (here null) raises \<open>AttributeError\<close>; and a bare
  string is iterated character by character, so \<open>"e"\<close> gives the blue coat the colour boost
  instead of counting as no preference.
\<close>

theorem malformed_favorite_colors_raise:
  "fav_colors_of ex_prefs_number = Inl TypeError
   \<and> fst (search_products ex_num ex_faiss remdups 3 ex_state ex_request_number) = Inl TypeError
   \<and> fav_colors_of ex_prefs_mixed = Inl AttributeError
   \<and> fav_colors_of ex_prefs_string = Inr [''e'']
   \<and> color_boost [''e''] (ex_catalog ! 2) = 5 / 100"
proof -
  have n: "fav_colors_of ex_prefs_number = Inl TypeError" by code_simp
  have m: "fav_colors_of ex_prefs_mixed = Inl AttributeError" by code_simp
  have s: "fav_colors_of ex_prefs_string = Inr [''e'']" by code_simp
  have c: "color_boost [''e''] (ex_catalog ! 2) = 5 / 100" by code_simp
  have r: "fst (search_products ex_num ex_faiss remdups 3 ex_state ex_request_number) = Inl TypeError"
    by (simp add: search_products_def Let_def ex_state_def ex_request_number_def n)
  from n m s c r show ?thesis by simp
qed

text \<open>
  Claim C2, amended. For preferences whose \<open>favorite_colors\<close> is absent or a list of
  strings, reading the favourite colours raises nothing, whatever the \<open>budget\<close> value is (it
  is only compared by equality); an absent \<open>favorite_colors\<close> adds 0 for the colour rule,
  and a \<open>budget\<close> that is absent or is not one of \<open>low\<close>, \<open>medium\<close>, \<open>high\<close> adds 0 for the
  budget rule.
\<close>

theorem boost_total_for_readable_preferences:
  assumes "dict_get (user_prefs ''favorite_colors'') (JArr []) = JArr (map JStr cs)"
  shows "fav_colors_of user_prefs = Inr (map lower cs)
    \<and> (user_prefs ''favorite_colors'' = None \<longrightarrow> color_boost (map lower cs) product = 0)
    \<and> (user_prefs ''budget''
          \<notin> {Some (JStr ''low''), Some (JStr ''medium''), Some (JStr ''high'')}
        \<longrightarrow> budget_boost (budget_of user_prefs) product = 0)"
proof (intro conjI impI)
  show "fav_colors_of user_prefs = Inr (map lower cs)"
    using assms by (rule fav_colors_of_strs)
  show "color_boost (map lower cs) product = 0" if "user_prefs ''favorite_colors'' = None"
  proof -
    have "cs = []" using assms that by (simp add: dict_get_def)
    then show ?thesis by (simp add: color_boost_def)
  qed
  show "budget_boost (budget_of user_prefs) product = 0"
    if "user_prefs ''budget''
          \<notin> {Some (JStr ''low''), Some (JStr ''medium''), Some (JStr ''high'')}"
    using that by (intro budget_boost_unknown budget_of_unknown)
qed

theorem boost_total_for_readable_preferences_witness:
  "dict_get (ex_prefs_budget7 ''favorite_colors'') (JArr []) = JArr (map JStr [])
   \<and> ex_prefs_budget7 ''favorite_colors'' = None
   \<and> ex_prefs_budget7 ''budget''
        \<notin> {Some (JStr ''low''), Some (JStr ''medium''), Some (JStr ''high'')}
   \<and> fav_colors_of ex_prefs_budget7 = Inr []
   \<and> color_boost [] (ex_catalog ! 0) = 0
   \<and> budget_boost (budget_of ex_prefs_budget7) (ex_catalog ! 0) = 0"
proof -
  have h: "dict_get (ex_prefs_budget7 ''favorite_colors'') (JArr []) = JArr (map JStr [])"
    by (simp add: dict_get_def ex_prefs_budget7_def)
  have a: "ex_prefs_budget7 ''favorite_colors'' = None"
    by (simp add: ex_prefs_budget7_def)
  have b: "ex_prefs_budget7 ''budget''
        \<notin> {Some (JStr ''low''), Some (JStr ''medium''), Some (JStr ''high'')}"
    by (simp add: ex_prefs_budget7_def)
  from boost_total_for_readable_preferences
         [where user_prefs = ex_prefs_budget7 and cs = "[]" and product = "ex_catalog ! 0", OF h]
    h a b show ?thesis by simp
qed

section \<open>The ranking pipeline\<close>

lemma sorted_desc_by_neg_key:
  "sorted_wrt (\<lambda>a b. (f b :: real) \<le> f a) (sort_key (\<lambda>r. - f r) xs)"
proof -
  have "sorted (map (\<lambda>r. - f r) (sort_key (\<lambda>r. - f r) xs))"
    by (rule sorted_sort_key)
  then show ?thesis by (simp add: sorted_map)
qed

lemma build_results_mem:
  "build_results num so fav b q ps row = Inr rs \<Longrightarrow> r \<in> set rs \<Longrightarrow>
     \<exists>idx s. (idx, s) \<in> set row \<and> 0 \<le> idx \<and> idx < int (length ps)
        \<and> build_result num so fav b q (ps ! nat idx) s = Inr r"
proof (induction row arbitrary: rs)
  case Nil
  then show ?case by simp
next
  case (Cons h row)
  obtain idx s where h: "h = (idx, s)" by (cases h)
  show ?case
  proof (cases "idx < 0 \<or> idx \<ge> int (length ps)")
    case True
    then have "build_results num so fav b q ps row = Inr rs"
      using Cons.prems(1) h by simp
    from Cons.IH[OF this Cons.prems(2)] show ?thesis by auto
  next
    case False
    then obtain r0 rs0 where r0: "build_result num so fav b q (ps ! nat idx) s = Inr r0"
      and rs0: "build_results num so fav b q ps row = Inr rs0" and rs: "rs = r0 # rs0"
      using Cons.prems(1) h by (auto split: sum.splits)
    show ?thesis
    proof (cases "r = r0")
      case True
      have "(idx, s) \<in> set (h # row)" using h by simp
      moreover have "0 \<le> idx" "idx < int (length ps)" using \<open>\<not> (idx < 0 \<or> idx \<ge> int (length ps))\<close> by auto
      moreover have "build_result num so fav b q (ps ! nat idx) s = Inr r" using r0 True by simp
      ultimately show ?thesis by blast
    next
      case False
      then have "r \<in> set rs0" using Cons.prems(2) rs by simp
      from Cons.IH[OF rs0 this] show ?thesis by auto
    qed
  qed
qed

lemma build_results_length:
  "build_results num so fav b q ps row = Inr rs \<Longrightarrow> length rs \<le> length row"
proof (induction row arbitrary: rs)
  case Nil
  then show ?case by simp
next
  case (Cons h row)
  obtain idx s where h: "h = (idx, s)" by (cases h)
  show ?case
    using Cons.prems Cons.IH h by (fastforce split: if_splits sum.splits)
qed

lemma split_ws_no_empty: "[] \<notin> set (split_ws cur s)"
  by (induction s arbitrary: cur) auto

lemma str_split_no_empty: "[] \<notin> set (str_split s)"
  by (simp add: str_split_def split_ws_no_empty)

lemma reasons_appended_total: "\<exists>rs. reasons_appended product ql = Inr rs"
proof -
  have e: "lower [] \<notin> set (str_split ql)"
    by (simp add: lower_def str_split_no_empty)
  show ?thesis
    by (cases "p_category product"; cases "p_subcategory product")
       (simp_all add: reasons_appended_def Let_def dict_get_def lookup_def e)
qed

lemma compute_match_reasons_total:
  "\<exists>rs. compute_match_reasons so product ql = Inr rs"
  using reasons_appended_total[of product ql]
  by (auto simp: compute_match_reasons_def)

lemma build_result_ok:
  assumes "p_id p \<noteq> None \<and> p_name p \<noteq> None \<and> p_description p \<noteq> None
           \<and> p_price p \<noteq> None \<and> p_category p \<noteq> None"
  shows "\<exists>r. build_result num so fav b q p s = Inr r
           \<and> (Some (r_id r), Some (r_name r), Some (r_description r), Some (r_price r),
                Some (r_category r))
             = (p_id p, p_name p, p_description p, p_price p, p_category p)"
proof -
  obtain rs where "compute_match_reasons so p (lower q) = Inr rs"
    using compute_match_reasons_total by blast
  then show ?thesis
    using assms by (auto simp: build_result_def Let_def lookup_def)
qed

lemma build_results_all:
  assumes cat: "\<forall>p \<in> set ps. p_id p \<noteq> None \<and> p_name p \<noteq> None \<and> p_description p \<noteq> None
                  \<and> p_price p \<noteq> None \<and> p_category p \<noteq> None"
  shows "\<exists>rs. build_results num so fav b q ps row = Inr rs
           \<and> map (\<lambda>r. (Some (r_id r), Some (r_name r), Some (r_description r),
                          Some (r_price r), Some (r_category r))) rs
             = map (\<lambda>i. (p_id (ps ! nat i), p_name (ps ! nat i), p_description (ps ! nat i),
                            p_price (ps ! nat i), p_category (ps ! nat i)))
                 (filter (\<lambda>i. 0 \<le> i \<and> i < int (length ps)) (map fst row))"
proof (induction row)
  case Nil
  show ?case by simp
next
  case (Cons h row)
  obtain idx s where h: "h = (idx, s)" by (cases h)
  from Cons.IH obtain rs where rs: "build_results num so fav b q ps row = Inr rs"
    and keys: "map (\<lambda>r. (Some (r_id r), Some (r_name r), Some (r_description r),
                          Some (r_price r), Some (r_category r))) rs
             = map (\<lambda>i. (p_id (ps ! nat i), p_name (ps ! nat i), p_description (ps ! nat i),
                            p_price (ps ! nat i), p_category (ps ! nat i)))
                 (filter (\<lambda>i. 0 \<le> i \<and> i < int (length ps)) (map fst row))"
    by blast
  show ?case
  proof (cases "idx < 0 \<or> idx \<ge> int (length ps)")
    case True
    then show ?thesis using rs keys h by auto
  next
    case False
    then have "nat idx < length ps" by linarith
    then have "ps ! nat idx \<in> set ps" by (rule nth_mem)
    then have "p_id (ps ! nat idx) \<noteq> None \<and> p_name (ps ! nat idx) \<noteq> None
        \<and> p_description (ps ! nat idx) \<noteq> None \<and> p_price (ps ! nat idx) \<noteq> None
        \<and> p_category (ps ! nat idx) \<noteq> None"
      using cat by blast
    from build_result_ok[OF this] obtain r where
      r: "build_result num so fav b q (ps ! nat idx) s = Inr r"
      and k: "(Some (r_id r), Some (r_name r), Some (r_description r), Some (r_price r),
                Some (r_category r))
             = (p_id (ps ! nat idx), p_name (ps ! nat idx), p_description (ps ! nat idx),
                p_price (ps ! nat idx), p_category (ps ! nat idx))"
      by blast
    have "build_results num so fav b q ps (h # row) = Inr (r # rs)"
      using False h r rs by simp
    moreover have "filter (\<lambda>i. 0 \<le> i \<and> i < int (length ps)) (map fst (h # row))
        = idx # filter (\<lambda>i. 0 \<le> i \<and> i < int (length ps)) (map fst row)"
      using False h by simp
    ultimately show ?thesis using k keys by simp
  qed
qed

lemma map_nth_int: "map (\<lambda>i. f (ps ! nat i)) (map int [0..<length ps]) = map f ps"
proof -
  have "map (\<lambda>i. f (ps ! nat i)) (map int [0..<length ps]) = map f (map ((!) ps) [0..<length ps])"
    by simp
  then show ?thesis by (simp only: map_nth)
qed

lemma search_products_ready:
  assumes "index st = Some ix" and "model st = Some enc"
    and "faiss_search ix (f_normalize num (enc (query req))) (top_k req) = row"
    and "fav_colors_of (user_preferences req) = Inr fav"
    and "build_results num set_order fav (budget_of (user_preferences req)) (query req)
           (products st) row = Inr rs"
  shows "fst (search_products num faiss_search set_order elapsed_ms st req)
         = Inr (Search \<lparr> sr_products = sort_key (\<lambda>r. - similarity_score r) rs,
                          sr_query = query req, search_time_ms = elapsed_ms,
                          total_results = length rs \<rparr>)"
  using assms by (simp add: search_products_def Let_def)

lemma build_results_budget_irrelevant:
  assumes "b \<notin> {JStr ''low'', JStr ''medium'', JStr ''high''}"
    and "b' \<notin> {JStr ''low'', JStr ''medium'', JStr ''high''}"
  shows "build_results num so fav b q ps row = build_results num so fav b' q ps row"
proof -
  have r: "build_result num so fav b q p s = build_result num so fav b' q p s" for p s
    by (simp add: build_result_def budget_boost_unknown[OF assms(1)]
          budget_boost_unknown[OF assms(2)])
  show ?thesis
    by (induction row) (auto simp: r cong: sum.case_cong)
qed

lemma ex_catalog_complete:
  "\<forall>p \<in> set ex_catalog. p_id p \<noteq> None \<and> p_name p \<noteq> None
      \<and> p_description p \<noteq> None \<and> p_price p \<noteq> None \<and> p_category p \<noteq> None"
  by (simp add: ex_catalog_def mk_product_def)

lemma ex_catalog_length: "length ex_catalog = 5"
  by (simp add: ex_catalog_def)

lemma ex_build_two:
  "build_results ex_num remdups [''red''] (JStr ''low'') ''Red dress'' ex_catalog
     [(2, 9 / 10), (0, 88 / 100)]
   = Inr [sr_products ex_response ! 1, sr_products ex_response ! 0]"
  by code_simp

lemma ex_search_two:
  "fst (search_products ex_num ex_faiss remdups 3 ex_state (ex_request 2)) = Inr (Search ex_response)"
proof -
  let ?row = "[(2, 9 / 10), (0, 88 / 100)] :: (int \<times> real) list"
  let ?rs = "[sr_products ex_response ! 1, sr_products ex_response ! 0]"
  have q: "query (ex_request 2) = ''Red dress''" "user_preferences (ex_request 2) = ex_prefs"
    "top_k (ex_request 2) = 2"
    by (simp_all add: ex_request_def)
  have ix: "index ex_state = Some (map (f_normalize ex_num) (map ex_embed (map build_text ex_catalog)))"
    and enc: "model ex_state = Some ex_embed" and ps: "products ex_state = ex_catalog"
    by (simp_all add: ex_state_def)
  have row: "ex_faiss (map (f_normalize ex_num) (map ex_embed (map build_text ex_catalog)))
               (f_normalize ex_num (ex_embed (query (ex_request 2)))) (top_k (ex_request 2))
             = ?row"
    by (simp add: ex_faiss_def q)
  have fav: "fav_colors_of (user_preferences (ex_request 2)) = Inr [''red'']"
    by (simp only: q ex_fav)
  have rs: "build_results ex_num remdups [''red''] (budget_of (user_preferences (ex_request 2)))
              (query (ex_request 2)) (products ex_state) ?row = Inr ?rs"
    by (simp only: q ps ex_budget ex_build_two)
  have srt: "sort_key (\<lambda>r. - similarity_score r) ?rs = sr_products ex_response"
    by (simp add: ex_response_def)
  have "fst (search_products ex_num ex_faiss remdups 3 ex_state (ex_request 2))
         = Inr (Search \<lparr> sr_products = sort_key (\<lambda>r. - similarity_score r) ?rs,
                          sr_query = query (ex_request 2), search_time_ms = 3,
                          total_results = length ?rs \<rparr>)"
    by (rule search_products_ready[where num = ex_num and faiss_search = ex_faiss and st = ex_state
          and req = "ex_request 2" and enc = ex_embed, OF ix enc row fav rs])
  also have "\<dots> = Inr (Search ex_response)"
    unfolding srt by (simp add: q ex_response_def)
  finally show ?thesis .
qed

text \<open>
  Claim C1. Whenever the endpoint answers with a search response, its products are in
  descending order of \<open>similarity_score\<close> (the boosted, rounded score), there are no more
  of them than retrieved entries, and each of them was built from a catalog item whose
  position occurs in the row returned by the retrieval for this request. The preferences
  only enter through the score of a retrieved item, so no preference object, whatever boost
  it gives, brings in an item that was not retrieved.
\<close>

theorem results_sorted_from_retrieved:
  assumes "fst (search_products num faiss_search set_order elapsed_ms st req) = Inr (Search resp)"
  shows "\<exists>ix enc fav.
           index st = Some ix \<and> model st = Some enc
         \<and> fav_colors_of (user_preferences req) = Inr fav
         \<and> sorted_wrt (\<lambda>a b. similarity_score b \<le> similarity_score a) (sr_products resp)
         \<and> length (sr_products resp)
             \<le> length (faiss_search ix (f_normalize num (enc (query req))) (top_k req))
         \<and> (\<forall>r \<in> set (sr_products resp).
               \<exists>idx s. (idx, s) \<in> set (faiss_search ix (f_normalize num (enc (query req)))
                                          (top_k req))
                 \<and> 0 \<le> idx \<and> idx < int (length (products st))
                 \<and> build_result num set_order fav (budget_of (user_preferences req)) (query req)
                      (products st ! nat idx) s = Inr r)"
proof -
  from assms obtain ix where ix: "index st = Some ix"
    by (auto simp: search_products_def split: option.splits)
  from assms ix obtain enc where enc: "model st = Some enc"
    by (auto simp: search_products_def split: option.splits)
  let ?row = "faiss_search ix (f_normalize num (enc (query req))) (top_k req)"
  let ?prefs = "user_preferences req"
  from assms ix enc obtain fav where fav: "fav_colors_of ?prefs = Inr fav"
    by (auto simp: search_products_def Let_def split: sum.splits)
  from assms ix enc fav obtain results where
    res: "build_results num set_order fav (budget_of ?prefs) (query req) (products st) ?row
            = Inr results"
    and resp: "sr_products resp = sort_key (\<lambda>r. - similarity_score r) results"
    by (auto simp: search_products_def Let_def split: sum.splits)
  have s: "sorted_wrt (\<lambda>a b. similarity_score b \<le> similarity_score a) (sr_products resp)"
    unfolding resp by (rule sorted_desc_by_neg_key)
  have l: "length (sr_products resp) \<le> length ?row"
    unfolding resp using build_results_length[OF res] by simp
  have m: "\<forall>r \<in> set (sr_products resp).
               \<exists>idx s. (idx, s) \<in> set ?row \<and> 0 \<le> idx \<and> idx < int (length (products st))
                 \<and> build_result num set_order fav (budget_of ?prefs) (query req)
                      (products st ! nat idx) s = Inr r"
    unfolding resp using build_results_mem[OF res] by simp
  from ix enc fav s l m show ?thesis by blast
qed

theorem results_sorted_from_retrieved_witness:
  "fst (search_products ex_num ex_faiss remdups 3 ex_state (ex_request 2)) = Inr (Search ex_response)
   \<and> sorted_wrt (\<lambda>a b. similarity_score b \<le> similarity_score a) (sr_products ex_response)
   \<and> map r_id (sr_products ex_response) = [1, 3]"
proof -
  have i: "map r_id (sr_products ex_response) = [1, 3]"
    by (simp add: ex_response_def)
  from results_sorted_from_retrieved [OF ex_search_two] ex_search_two i
  show ?thesis by blast
qed

text \<open>
  Claim C6. Let the requested \<open>top_k\<close> exceed the catalog size, and let the retrieval
  answer as FAISS does in that case: every catalog position occurs once among the labels of
  the row and the remaining places hold a label outside the catalog (-1). For a catalog
  whose items have the keys the response needs, and preferences whose favourite colours can
  be read, the endpoint raises nothing and answers with exactly one result per catalog
  item, sorted by descending score; the padding is skipped.
\<close>

theorem all_items_when_k_exceeds_catalog:
  assumes ix: "index st = Some ix" and enc: "model st = Some enc"
    and found: "faiss_search ix (f_normalize num (enc (query req))) (top_k req) = row"
    and big: "int (length (products st)) < top_k req"
    and labels: "sort (filter (\<lambda>i. 0 \<le> i \<and> i < int (length (products st))) (map fst row))
                   = map int [0..<length (products st)]"
    and cat: "\<forall>p \<in> set (products st). p_id p \<noteq> None \<and> p_name p \<noteq> None
                 \<and> p_description p \<noteq> None \<and> p_price p \<noteq> None \<and> p_category p \<noteq> None"
    and prefs: "fav_colors_of (user_preferences req) = Inr fav"
  shows "\<exists>resp. fst (search_products num faiss_search set_order elapsed_ms st req) = Inr (Search resp)
           \<and> length (sr_products resp) = length (products st)
           \<and> total_results resp = length (products st)
           \<and> sorted_wrt (\<lambda>a b. similarity_score b \<le> similarity_score a) (sr_products resp)
           \<and> mset (map (\<lambda>r. (Some (r_id r), Some (r_name r), Some (r_description r),
                                Some (r_price r), Some (r_category r))) (sr_products resp))
             = mset (map (\<lambda>p. (p_id p, p_name p, p_description p, p_price p, p_category p))
                      (products st))"
proof -
  let ?ps = "products st"
  let ?kr = "\<lambda>r. (Some (r_id r), Some (r_name r), Some (r_description r),
                   Some (r_price r), Some (r_category r))"
  let ?kp = "\<lambda>p. (p_id p, p_name p, p_description p, p_price p, p_category p)"
  let ?valid = "filter (\<lambda>i. 0 \<le> i \<and> i < int (length ?ps)) (map fst row)"
  from build_results_all[OF cat, where num = num and so = set_order and fav = fav
         and b = "budget_of (user_preferences req)" and q = "query req" and row = row]
  obtain rs where rs: "build_results num set_order fav (budget_of (user_preferences req)) (query req)
                         ?ps row = Inr rs"
    and keys: "map ?kr rs = map (\<lambda>i. ?kp (?ps ! nat i)) ?valid"
    by blast
  let ?resp = "\<lparr> sr_products = sort_key (\<lambda>r. - similarity_score r) rs, sr_query = query req,
                  search_time_ms = elapsed_ms, total_results = length rs \<rparr>"
  have out: "fst (search_products num faiss_search set_order elapsed_ms st req) = Inr (Search ?resp)"
    using ix enc found prefs rs by (simp add: search_products_def Let_def)
  have "mset ?valid = mset (sort ?valid)"
    by simp
  also have "\<dots> = mset (map int [0..<length ?ps])"
    by (simp only: labels)
  finally have "mset ?valid = mset (map int [0..<length ?ps])" .
  then have "mset (map (\<lambda>i. ?kp (?ps ! nat i)) ?valid)
               = mset (map (\<lambda>i. ?kp (?ps ! nat i)) (map int [0..<length ?ps]))"
    by (simp only: mset_map)
  also have "\<dots> = mset (map ?kp ?ps)"
  proof -
    have "map (\<lambda>i. ?kp (?ps ! nat i)) (map int [0..<length ?ps]) = map ?kp ?ps"
      by (rule map_nth_int)
    then show ?thesis by (rule arg_cong)
  qed
  finally have m: "mset (map ?kr rs) = mset (map ?kp ?ps)"
    using keys by simp
  have len: "length rs = length ?ps"
    using arg_cong[OF m, of size] by simp
  have m2: "mset (map ?kr (sr_products ?resp)) = mset (map ?kp ?ps)"
    using m by simp
  have s: "sorted_wrt (\<lambda>a b. similarity_score b \<le> similarity_score a) (sr_products ?resp)"
    by (simp add: sorted_desc_by_neg_key)
  from out len m2 s show ?thesis
    by (intro exI[of _ ?resp]) simp
qed

theorem all_items_when_k_exceeds_catalog_witness:
  "int (length (products ex_state)) < top_k (ex_request 20)
   \<and> (\<exists>resp. fst (search_products ex_num ex_faiss remdups 3 ex_state (ex_request 20))
                = Inr (Search resp)
          \<and> length (sr_products resp) = 5 \<and> total_results resp = 5)"
proof -
  let ?row = "take (nat 20) [(2, 9 / 10), (0, 88 / 100), (4, 1 / 2), (1, 3 / 10), (3, 1 / 10)]
                @ replicate (nat 20 - 5) (- 1, - 1) :: (int \<times> real) list"
  have q: "query (ex_request 20) = ''Red dress''" "user_preferences (ex_request 20) = ex_prefs"
    "top_k (ex_request 20) = 20"
    by (simp_all add: ex_request_def)
  have ix: "index ex_state = Some (map (f_normalize ex_num) (map ex_embed (map build_text ex_catalog)))"
    and enc: "model ex_state = Some ex_embed" and ps: "products ex_state = ex_catalog"
    by (simp_all add: ex_state_def)
  have row: "ex_faiss (map (f_normalize ex_num) (map ex_embed (map build_text ex_catalog)))
               (f_normalize ex_num (ex_embed (query (ex_request 20)))) (top_k (ex_request 20))
             = ?row"
    by (simp only: ex_faiss_def q)
  have big: "int (length (products ex_state)) < top_k (ex_request 20)"
    by (simp add: ps q ex_catalog_length)
  have labels: "sort (filter (\<lambda>i. 0 \<le> i \<and> i < int (length (products ex_state))) (map fst ?row))
                  = map int [0..<length (products ex_state)]"
    by (simp add: ps ex_catalog_length upt_rec)
  have cat: "\<forall>p \<in> set (products ex_state). p_id p \<noteq> None \<and> p_name p \<noteq> None
                 \<and> p_description p \<noteq> None \<and> p_price p \<noteq> None \<and> p_category p \<noteq> None"
    unfolding ps by (rule ex_catalog_complete)
  have fav: "fav_colors_of (user_preferences (ex_request 20)) = Inr [''red'']"
    by (simp only: q ex_fav)
  from all_items_when_k_exceeds_catalog
         [where num = ex_num and faiss_search = ex_faiss and st = ex_state and req = "ex_request 20"
            and enc = ex_embed and set_order = remdups and elapsed_ms = 3,
          OF ix enc row big labels cat fav]
  show ?thesis using big by (auto simp: ps ex_catalog_length)
qed

lemma build_result_scored:
  assumes "p_id p \<noteq> None \<and> p_name p \<noteq> None \<and> p_description p \<noteq> None
           \<and> p_price p \<noteq> None \<and> p_category p \<noteq> None"
  shows "\<exists>r. build_result num so fav b q p s = Inr r
           \<and> Some (r_id r) = p_id p
           \<and> similarity_score r
               = f_round4 num (add_boost num (add_boost num s (color_boost fav p))
                                 (budget_boost b p))"
proof -
  obtain rs where "compute_match_reasons so p (lower q) = Inr rs"
    using compute_match_reasons_total by blast
  then show ?thesis
    using assms by (auto simp: build_result_def Let_def lookup_def)
qed

lemma build_results_scored:
  assumes cat: "\<forall>p \<in> set ps. p_id p \<noteq> None \<and> p_name p \<noteq> None \<and> p_description p \<noteq> None
                  \<and> p_price p \<noteq> None \<and> p_category p \<noteq> None"
  shows "\<exists>rs. build_results num so fav b q ps row = Inr rs
           \<and> map (\<lambda>r. (Some (r_id r), similarity_score r)) rs
             = map (\<lambda>(idx, s). (p_id (ps ! nat idx),
                       f_round4 num (add_boost num (add_boost num s (color_boost fav (ps ! nat idx)))
                                       (budget_boost b (ps ! nat idx)))))
                 (filter (\<lambda>(idx, s). 0 \<le> idx \<and> idx < int (length ps)) row)"
proof (induction row)
  case Nil
  show ?case by simp
next
  case (Cons h row)
  obtain idx s where h: "h = (idx, s)" by (cases h)
  from Cons.IH obtain rs where rs: "build_results num so fav b q ps row = Inr rs"
    and keys: "map (\<lambda>r. (Some (r_id r), similarity_score r)) rs
             = map (\<lambda>(idx, s). (p_id (ps ! nat idx),
                       f_round4 num (add_boost num (add_boost num s (color_boost fav (ps ! nat idx)))
                                       (budget_boost b (ps ! nat idx)))))
                 (filter (\<lambda>(idx, s). 0 \<le> idx \<and> idx < int (length ps)) row)"
    by blast
  show ?case
  proof (cases "idx < 0 \<or> idx \<ge> int (length ps)")
    case True
    then show ?thesis using rs keys h by auto
  next
    case False
    then have "nat idx < length ps" by linarith
    then have "ps ! nat idx \<in> set ps" by (rule nth_mem)
    then have "p_id (ps ! nat idx) \<noteq> None \<and> p_name (ps ! nat idx) \<noteq> None
        \<and> p_description (ps ! nat idx) \<noteq> None \<and> p_price (ps ! nat idx) \<noteq> None
        \<and> p_category (ps ! nat idx) \<noteq> None"
      using cat by blast
    from build_result_scored[OF this, where num = num and so = so and fav = fav and b = b
           and q = q and s = s]
    obtain r where r: "build_result num so fav b q (ps ! nat idx) s = Inr r"
      and k: "Some (r_id r) = p_id (ps ! nat idx)"
             "similarity_score r
               = f_round4 num (add_boost num (add_boost num s (color_boost fav (ps ! nat idx)))
                                 (budget_boost b (ps ! nat idx)))"
      by blast
    have "build_results num so fav b q ps (h # row) = Inr (r # rs)"
      using False h r rs by simp
    moreover have "filter (\<lambda>(idx, s). 0 \<le> idx \<and> idx < int (length ps)) (h # row)
        = (idx, s) # filter (\<lambda>(idx, s). 0 \<le> idx \<and> idx < int (length ps)) row"
      using False h by simp
    ultimately show ?thesis using k keys by simp
  qed
qed

lemma ex_fav_budget7: "fav_colors_of ex_prefs_budget7 = Inr []"
  by code_simp

lemma ex_scores_budget7:
  "map (\<lambda>(idx, s). (p_id (ex_catalog ! nat idx),
          f_round4 ex_num (add_boost ex_num s (color_boost [] (ex_catalog ! nat idx)))))
     (filter (\<lambda>(idx, s). 0 \<le> idx \<and> idx < int (length ex_catalog))
        [(2, 9 / 10), (0, 88 / 100)])
   = [(Some 3, 9 / 10), (Some 1, 88 / 100)]"
  by code_simp

text \<open>
  Claim C10. Let the \<open>budget\<close> preference be absent, or any value other than the strings
  \<open>low\<close>, \<open>medium\<close> and \<open>high\<close> (another string, a number, a list, null). Then the budget
  rule adds 0 for every item. When the index is ready, the favourite colours can be read
  and the catalog items have the keys the response needs, the endpoint raises nothing and
  answers with a search response in which every retrieved item of the catalog is returned,
  with the score obtained from its similarity and the colour rule alone. In every case the
  outcome of the request is that of the same request with the \<open>budget\<close> key removed.
\<close>

theorem unknown_budget_adds_nothing:
  assumes budget: "user_preferences req ''budget''
             \<notin> {Some (JStr ''low''), Some (JStr ''medium''), Some (JStr ''high'')}"
    and ix: "index st = Some ix" and enc: "model st = Some enc"
    and prefs: "fav_colors_of (user_preferences req) = Inr fav"
    and cat: "\<forall>p \<in> set (products st). p_id p \<noteq> None \<and> p_name p \<noteq> None
                 \<and> p_description p \<noteq> None \<and> p_price p \<noteq> None \<and> p_category p \<noteq> None"
  shows "budget_boost (budget_of (user_preferences req)) product = 0
       \<and> (\<exists>resp. fst (search_products num faiss_search set_order elapsed_ms st req)
                    = Inr (Search resp)
             \<and> mset (map (\<lambda>r. (Some (r_id r), similarity_score r)) (sr_products resp))
               = mset (map (\<lambda>(idx, s). (p_id (products st ! nat idx),
                              f_round4 num (add_boost num s
                                              (color_boost fav (products st ! nat idx)))))
                        (filter (\<lambda>(idx, s). 0 \<le> idx \<and> idx < int (length (products st)))
                           (faiss_search ix (f_normalize num (enc (query req))) (top_k req)))))
       \<and> search_products num faiss_search set_order elapsed_ms st req
         = search_products num faiss_search set_order elapsed_ms st
             (req\<lparr>user_preferences := (user_preferences req)(''budget'' := None)\<rparr>)"
proof (intro conjI)
  have b: "budget_of (user_preferences req) \<notin> {JStr ''low'', JStr ''medium'', JStr ''high''}"
    using budget by (rule budget_of_unknown)
  have zero: "budget_boost (budget_of (user_preferences req)) p = 0" for p
    using b by (rule budget_boost_unknown)
  show "budget_boost (budget_of (user_preferences req)) product = 0"
    by (rule zero)
  let ?row = "faiss_search ix (f_normalize num (enc (query req))) (top_k req)"
  let ?ps = "products st"
  from build_results_scored[OF cat, where num = num and so = set_order and fav = fav
         and b = "budget_of (user_preferences req)" and q = "query req" and row = ?row]
  obtain rs where rs: "build_results num set_order fav (budget_of (user_preferences req))
                         (query req) ?ps ?row = Inr rs"
    and sc: "map (\<lambda>r. (Some (r_id r), similarity_score r)) rs
             = map (\<lambda>(idx, s). (p_id (?ps ! nat idx),
                       f_round4 num (add_boost num s (color_boost fav (?ps ! nat idx)))))
                 (filter (\<lambda>(idx, s). 0 \<le> idx \<and> idx < int (length ?ps)) ?row)"
    by (auto simp: zero add_boost_def)
  let ?resp = "\<lparr> sr_products = sort_key (\<lambda>r. - similarity_score r) rs, sr_query = query req,
                  search_time_ms = elapsed_ms, total_results = length rs \<rparr>"
  have out: "fst (search_products num faiss_search set_order elapsed_ms st req)
               = Inr (Search ?resp)"
    using ix enc prefs rs by (simp add: search_products_def Let_def)
  have "mset (map (\<lambda>r. (Some (r_id r), similarity_score r)) (sr_products ?resp))
          = mset (map (\<lambda>r. (Some (r_id r), similarity_score r)) rs)"
    by simp
  then have m: "mset (map (\<lambda>r. (Some (r_id r), similarity_score r)) (sr_products ?resp))
               = mset (map (\<lambda>(idx, s). (p_id (?ps ! nat idx),
                              f_round4 num (add_boost num s (color_boost fav (?ps ! nat idx)))))
                        (filter (\<lambda>(idx, s). 0 \<le> idx \<and> idx < int (length ?ps)) ?row))"
    by (simp only: sc)
  from out m show "\<exists>resp. fst (search_products num faiss_search set_order elapsed_ms st req)
                    = Inr (Search resp)
             \<and> mset (map (\<lambda>r. (Some (r_id r), similarity_score r)) (sr_products resp))
               = mset (map (\<lambda>(idx, s). (p_id (?ps ! nat idx),
                              f_round4 num (add_boost num s (color_boost fav (?ps ! nat idx)))))
                        (filter (\<lambda>(idx, s). 0 \<le> idx \<and> idx < int (length ?ps)) ?row))"
    by blast
  let ?prefs' = "(user_preferences req)(''budget'' := None)"
  have b': "budget_of ?prefs' \<notin> {JStr ''low'', JStr ''medium'', JStr ''high''}"
    by (simp add: budget_of_def dict_get_def)
  have f: "fav_colors_of ?prefs' = fav_colors_of (user_preferences req)"
    by (simp add: fav_colors_of_def)
  have r: "build_results num so fav (budget_of ?prefs') q ps row
         = build_results num so fav (budget_of (user_preferences req)) q ps row" for so fav q ps row
    by (rule build_results_budget_irrelevant[OF b' b])
  show "search_products num faiss_search set_order elapsed_ms st req
         = search_products num faiss_search set_order elapsed_ms st
             (req\<lparr>user_preferences := ?prefs'\<rparr>)"
    by (simp add: search_products_def Let_def f r
          cong: sum.case_cong list.case_cong option.case_cong)
qed

theorem unknown_budget_adds_nothing_witness:
  "ex_prefs_budget7 ''budget''
     \<notin> {Some (JStr ''low''), Some (JStr ''medium''), Some (JStr ''high'')}
   \<and> fav_colors_of (user_preferences ex_request_budget7) = Inr []
   \<and> budget_boost (budget_of ex_prefs_budget7) (ex_catalog ! 0) = 0
   \<and> (\<exists>resp. fst (search_products ex_num ex_faiss remdups 3 ex_state ex_request_budget7)
                = Inr (Search resp)
          \<and> mset (map (\<lambda>r. (Some (r_id r), similarity_score r)) (sr_products resp))
            = mset [(Some 3, 9 / 10), (Some 1, 88 / 100)])"
proof -
  have q: "query ex_request_budget7 = ''Red dress''"
    "user_preferences ex_request_budget7 = ex_prefs_budget7" "top_k ex_request_budget7 = 2"
    by (simp_all add: ex_request_budget7_def)
  have bud: "user_preferences ex_request_budget7 ''budget''
     \<notin> {Some (JStr ''low''), Some (JStr ''medium''), Some (JStr ''high'')}"
    by (simp add: q ex_prefs_budget7_def)
  have ix: "index ex_state
              = Some (map (f_normalize ex_num) (map ex_embed (map build_text ex_catalog)))"
    and enc: "model ex_state = Some ex_embed" and ps: "products ex_state = ex_catalog"
    by (simp_all add: ex_state_def)
  have fav: "fav_colors_of (user_preferences ex_request_budget7) = Inr []"
    by (simp only: q ex_fav_budget7)
  have cat: "\<forall>p \<in> set (products ex_state). p_id p \<noteq> None \<and> p_name p \<noteq> None
                 \<and> p_description p \<noteq> None \<and> p_price p \<noteq> None \<and> p_category p \<noteq> None"
    unfolding ps by (rule ex_catalog_complete)
  have row: "ex_faiss ix (f_normalize ex_num (ex_embed (query ex_request_budget7)))
               (top_k ex_request_budget7) = [(2, 9 / 10), (0, 88 / 100)]" for ix
    by (simp add: ex_faiss_def q)
  note t = unknown_budget_adds_nothing
         [where num = ex_num and faiss_search = ex_faiss and set_order = remdups
            and elapsed_ms = 3 and st = ex_state and req = ex_request_budget7
            and product = "ex_catalog ! 0", OF bud ix enc fav cat]
  from t[THEN conjunct1]
  have z: "budget_boost (budget_of ex_prefs_budget7) (ex_catalog ! 0) = 0"
    unfolding q .
  from t[THEN conjunct2, THEN conjunct1]
  have e: "\<exists>resp. fst (search_products ex_num ex_faiss remdups 3 ex_state ex_request_budget7)
                = Inr (Search resp)
          \<and> mset (map (\<lambda>r. (Some (r_id r), similarity_score r)) (sr_products resp))
            = mset [(Some 3, 9 / 10), (Some 1, 88 / 100)]"
    unfolding row ps ex_scores_budget7 .
  have b7: "ex_prefs_budget7 ''budget''
     \<notin> {Some (JStr ''low''), Some (JStr ''medium''), Some (JStr ''high'')}"
    using bud unfolding q .
  from b7 fav z e show ?thesis by (intro conjI)
qed

section \<open>Match explainer\<close>

lemma set_filter_word_hit:
  "set (filter (word_hit ws) xs)
     = {t \<in> set xs. lower t \<in> set ws \<or> (\<exists>w \<in> set ws. \<exists>ps ss. lower t = ps @ w @ ss)}"
  by (auto simp: word_hit_def list_ex_iff str_in_iff)

lemma key_reason:
  "\<exists>xs. (if lower (dict_get v '''') \<in> set (str_split ql)
          then map_sum id (\<lambda>c. [c]) (lookup k v) else Inr []) = Inr xs
        \<and> set xs = {c. v = Some c \<and> lower c \<in> set (str_split ql)}"
proof (cases v)
  case None
  have "lower [] \<notin> set (str_split ql)"
    by (simp add: lower_def str_split_no_empty)
  then show ?thesis using None by (simp add: dict_get_def)
next
  case (Some c)
  then show ?thesis by (auto simp: dict_get_def lookup_def)
qed

lemma reasons_appended_set:
  "\<exists>reasons. reasons_appended product ql = Inr reasons
     \<and> set reasons =
         {t \<in> set (dict_get (p_tags product) []) \<union> set (dict_get (p_occasions product) []).
            lower t \<in> set (str_split ql)
            \<or> (\<exists>w \<in> set (str_split ql). \<exists>ps ss. lower t = ps @ w @ ss)}
         \<union> {s \<in> set (dict_get (p_seasons product) []). lower s \<in> set (str_split ql)}
         \<union> {c. p_category product = Some c \<and> lower c \<in> set (str_split ql)}
         \<union> {c. p_subcategory product = Some c \<and> lower c \<in> set (str_split ql)}"
proof -
  obtain xs where xs: "(if lower (dict_get (p_category product) '''') \<in> set (str_split ql)
          then map_sum id (\<lambda>c. [c]) (lookup ''category'' (p_category product)) else Inr [])
          = Inr xs"
    and sxs: "set xs = {c. p_category product = Some c \<and> lower c \<in> set (str_split ql)}"
    using key_reason[of "p_category product" ql "''category''"] by blast
  obtain ys where ys: "(if lower (dict_get (p_subcategory product) '''') \<in> set (str_split ql)
          then map_sum id (\<lambda>c. [c]) (lookup ''subcategory'' (p_subcategory product)) else Inr [])
          = Inr ys"
    and sys: "set ys = {c. p_subcategory product = Some c \<and> lower c \<in> set (str_split ql)}"
    using key_reason[of "p_subcategory product" ql "''subcategory''"] by blast
  let ?ws = "str_split ql"
  let ?reasons = "filter (word_hit ?ws) (dict_get (p_tags product) [])
       @ filter (word_hit ?ws) (dict_get (p_occasions product) [])
       @ filter (\<lambda>season. lower season \<in> set ?ws) (dict_get (p_seasons product) [])
       @ xs @ ys"
  have out: "reasons_appended product ql = Inr ?reasons"
    unfolding reasons_appended_def Let_def xs ys by simp
  have "set ?reasons =
         {t \<in> set (dict_get (p_tags product) []) \<union> set (dict_get (p_occasions product) []).
            lower t \<in> set ?ws \<or> (\<exists>w \<in> set ?ws. \<exists>ps ss. lower t = ps @ w @ ss)}
         \<union> {s \<in> set (dict_get (p_seasons product) []). lower s \<in> set ?ws}
         \<union> {c. p_category product = Some c \<and> lower c \<in> set ?ws}
         \<union> {c. p_subcategory product = Some c \<and> lower c \<in> set ?ws}"
    unfolding set_append set_filter_word_hit sxs sys by auto
  with out show ?thesis by blast
qed

text \<open>
  Claim C4. The explainer raises nothing and returns at most 5 pairwise different reasons.
  With \<open>W\<close> the words of the (lower-cased) query, the reasons collected before the cap
  are exactly: the tags and occasions whose lower-cased form is in \<open>W\<close> or contains a word
  of \<open>W\<close> as a substring; the seasons whose lower-cased form is in \<open>W\<close>; the category and
  the subcategory when their lower-cased form is in \<open>W\<close>. Every returned reason is one of
  these strings, unchanged, and when there are at most 5 of them all are returned. Which 5
  survive the cap otherwise depends on the iteration order of Python's set, the parameter
  \<open>set_order\<close>, of which only this is assumed: it lists each distinct reason once.
\<close>

theorem match_reasons_capped_and_drawn:
  fixes product :: product and query_lower :: string
  defines "W \<equiv> set (str_split query_lower)"
  defines "C \<equiv>
         {t \<in> set (dict_get (p_tags product) []) \<union> set (dict_get (p_occasions product) []).
            lower t \<in> W \<or> (\<exists>w \<in> W. \<exists>ps ss. lower t = ps @ w @ ss)}
         \<union> {s \<in> set (dict_get (p_seasons product) []). lower s \<in> W}
         \<union> {c. p_category product = Some c \<and> lower c \<in> W}
         \<union> {c. p_subcategory product = Some c \<and> lower c \<in> W}"
  assumes ord: "\<And>xs. distinct (set_order xs) \<and> set (set_order xs) = set xs"
  shows "\<exists>rs. compute_match_reasons set_order product query_lower = Inr rs
           \<and> length rs \<le> 5 \<and> distinct rs \<and> set rs \<subseteq> C \<and> (card C \<le> 5 \<longrightarrow> set rs = C)"
proof -
  obtain reasons where r: "reasons_appended product query_lower = Inr reasons"
    and s: "set reasons = C"
    using reasons_appended_set[of product query_lower] unfolding C_def W_def by blast
  let ?rs = "take 5 (set_order reasons)"
  have out: "compute_match_reasons set_order product query_lower = Inr ?rs"
    by (simp add: compute_match_reasons_def r)
  have d: "distinct (set_order reasons)" and so: "set (set_order reasons) = C"
    using ord[of reasons] s by simp_all
  have sub: "set ?rs \<subseteq> C"
    using set_take_subset[of 5 "set_order reasons"] so by simp
  have all: "set ?rs = C" if "card C \<le> 5"
  proof -
    have "length (set_order reasons) = card C"
      using distinct_card[OF d] so by simp
    then have "?rs = set_order reasons" using that by simp
    then show ?thesis using so by simp
  qed
  from out d sub all show ?thesis by auto
qed

theorem match_reasons_capped_and_drawn_witness:
  "(\<forall>xs :: string list. distinct (remdups xs) \<and> set (remdups xs) = set xs)
   \<and> compute_match_reasons remdups (ex_catalog ! 0) ''summer dress''
       = Inr [''dress'', ''summer'', ''Summer'']"
proof -
  have o: "distinct (remdups xs) \<and> set (remdups xs) = set xs" for xs :: "string list"
    by simp
  have v: "compute_match_reasons remdups (ex_catalog ! 0) ''summer dress''
       = Inr [''dress'', ''summer'', ''Summer'']"
    by code_simp
  from match_reasons_capped_and_drawn[of remdups "ex_catalog ! 0" "''summer dress''", OF o] o v
  show ?thesis by simp
qed

section \<open>The specified index search\<close>

lemma length_normalize_row: "length (normalize_row v) = length v"
  by (simp add: normalize_row_def Let_def)

lemma dots_ok:
  "\<forall>v \<in> set vecs. length v = length q
     \<Longrightarrow> dots vecs q = Inr (map (\<lambda>v. sum_list (map2 (*) v q)) vecs)"
  by (induction vecs) (simp_all add: dot_def)

lemma ranked_strict:
  fixes scores :: "real list"
  defines "xs \<equiv> zip [0..<length scores] scores"
  shows "sorted_wrt (\<lambda>(i, s) (j, t). t < s \<or> (t = s \<and> i < j))
           (sort_key (\<lambda>(i, s). (- s, i)) xs)"
proof -
  let ?key = "\<lambda>(i :: nat, s :: real). (- s, i)"
  let ?ys = "sort_key ?key xs"
  have inj: "inj ?key" by (auto simp: inj_on_def)
  have "distinct (map fst xs)" by (simp add: xs_def)
  then have "distinct xs" by (simp add: distinct_map)
  then have "distinct ?ys" by simp
  then have d: "distinct (map ?key ?ys)"
    using inj_on_subset[OF inj, of "set ?ys"] by (simp add: distinct_map)
  have "sorted (map ?key ?ys)" by (rule sorted_sort_key)
  with d have "sorted_wrt (<) (map ?key ?ys)"
    by (simp add: strict_sorted_iff)
  then have "sorted_wrt (\<lambda>a b. ?key a < ?key b) ?ys"
    by (simp add: sorted_wrt_map)
  then show ?thesis
    by (rule sorted_wrt_mono_rel[rotated]) (auto simp: less_prod_def)
qed

lemma ex_query_normal: "normalize_row [1, 0] = [1, 0]"
  by (simp add: normalize_row_def linalg_norm_def)

lemma ex_index_search: "index_search ex_vectors [1, 0] 2 = Inr [(0, 1), (2, 1)]"
  by (simp add: index_search_def ex_vectors_def ex_query_normal dot_def less_eq_prod_def less_prod_def)

text \<open>
  Claim C5, for the index search as the specification describes it (the source calls FAISS
  for it). For a positive \<open>k\<close> not above the number of stored vectors, all of the query's
  dimension, the search succeeds with \<open>k\<close> (position, score) pairs; each score is
  the inner product of the stored vector at that position with the normalised query; the
  pairs are in descending order of score, and of two pairs with equal scores the one with
  the smaller catalog position comes first.
\<close>

theorem index_search_ranked:
  assumes k: "0 < k" "k \<le> int (length vecs)"
    and dim: "\<forall>v \<in> set vecs. length v = length query_vector"
  shows "\<exists>hits. index_search vecs query_vector k = Inr hits
           \<and> length hits \<le> nat k \<and> length hits = nat k
           \<and> sorted_wrt (\<lambda>(i, s) (j, t). t < s \<or> (t = s \<and> i < j)) hits
           \<and> (\<forall>(i, s) \<in> set hits.
                 i < length vecs \<and> dot (vecs ! i) (normalize_row query_vector) = Inr s)"
proof -
  let ?q = "normalize_row query_vector"
  let ?scores = "map (\<lambda>v. sum_list (map2 (*) v ?q)) vecs"
  let ?xs = "zip [0..<length ?scores] ?scores"
  let ?ys = "sort_key (\<lambda>(i, s). (- s, i)) ?xs"
  let ?hits = "take (nat k) ?ys"
  have d: "dots vecs ?q = Inr ?scores"
    using dim by (intro dots_ok) (simp add: length_normalize_row)
  have out: "index_search vecs query_vector k = Inr ?hits"
    using k d by (simp add: index_search_def)
  have len: "length ?hits \<le> nat k" "length ?hits = nat k"
    using k by simp_all
  have "sorted_wrt (\<lambda>(i, s) (j, t). t < s \<or> (t = s \<and> i < j)) ?ys"
    by (rule ranked_strict)
  then have srt: "sorted_wrt (\<lambda>(i, s) (j, t). t < s \<or> (t = s \<and> i < j)) ?hits"
    by (rule sorted_wrt_take)
  have mem: "\<forall>(i, s) \<in> set ?hits. i < length vecs \<and> dot (vecs ! i) ?q = Inr s"
  proof (clarify)
    fix i s assume "(i, s) \<in> set ?hits"
    then have "(i, s) \<in> set ?ys" by (rule in_set_takeD)
    then have "(i, s) \<in> set ?xs" by simp
    then have i: "i < length vecs" and s: "s = ?scores ! i"
      by (auto simp: set_zip)
    have "length (vecs ! i) = length ?q"
      using dim i by (simp add: length_normalize_row)
    then have "dot (vecs ! i) ?q = Inr s"
      using i s by (simp add: dot_def)
    with i show "i < length vecs \<and> dot (vecs ! i) ?q = Inr s" by simp
  qed
  from out len srt mem show ?thesis by blast
qed

theorem index_search_ranked_witness:
  "(0 :: int) < 2 \<and> 2 \<le> int (length ex_vectors)
   \<and> map length ex_vectors = [2, 2, 2]
   \<and> index_search ex_vectors [1, 0] 2 = Inr [(0, 1), (2, 1)]"
proof -
  have a: "(0 :: int) < 2" by simp
  have b: "2 \<le> int (length ex_vectors)" by (simp add: ex_vectors_def)
  have c: "\<forall>v \<in> set ex_vectors. length v = length [1, 0 :: real]"
    by (simp add: ex_vectors_def)
  have d: "map length ex_vectors = [2, 2, 2]" by (simp add: ex_vectors_def)
  from index_search_ranked[OF a b c] a b d ex_index_search show ?thesis by simp
qed

section \<open>Startup on an empty catalog\<close>

text \<open>
  Claim C8. Startup on zero catalog items fails while the index is being built: the norm
  over axis 1 of the one-dimensional empty array raises (numpy's \<open>AxisError\<close>; the source
  has no exception type of its own for it, and the specification names error kinds, not
  types). The failure comes before \<open>index\<close> is assigned, so the index keeps the value it
  had, which before startup is \<open>None\<close>: it does not become ready. The failure is that of
  the empty catalog only: with at least one item the array is two-dimensional, the build
  goes through and the index is set.
\<close>

theorem empty_catalog_fails_startup:
  "fst (startup_load_products num embed_text [] st) = Some AxisError
   \<and> index (snd (startup_load_products num embed_text [] st)) = index st
   \<and> index (snd (startup_load_products num embed_text [] initial_state)) = None
   \<and> fst (startup_load_products num embed_text (p # ps) st) = None
   \<and> index (snd (startup_load_products num embed_text (p # ps) st)) \<noteq> None"
  by (simp add: startup_load_products_def Let_def initial_state_def)

end
